theory Spec2Isabelle
  imports Complex_Main
begin

section \<open>Data model of \<open>spt_extract_plain_table.py\<close>\<close>

text \<open>
  The exceptions that the body of \<open>extract_summary_table\<close> can raise. They are
  all caught by the single \<open>except Exception\<close> of line 193.
\<close>

datatype error = IndexError | KeyError | ValueError | TypeError | OverflowError

text \<open>
  One row of the return-period frame \<open>rp_df\<close> (lines 64-74): the six columns
  \<open>return_2\<close> ... \<open>return_100\<close>. Flow values are modelled as reals; the
  comparisons of the source are exact on the finite floats they stand for.
\<close>

record thresholds =
  return_2 :: real
  return_5 :: real
  return_10 :: real
  return_25 :: real
  return_50 :: real
  return_100 :: real

text \<open>
  \<open>rp_df\<close> is indexed by \<open>rp_comid\<close>; the index is kept as an association list,
  since a frame may hold a river id more than once.
\<close>

type_synonym rp_frame = "(int \<times> thresholds) list"

text \<open>
  \<open>rp_df.loc[comid, col]\<close> as the conditions of lines 131-169 use it: a label that
  is absent raises KeyError; a label held once gives the row, whose column is then
  compared; a label held several times gives a Series, and \<open>if f_mean > Series\<close>
  raises ValueError.
\<close>

definition rp_loc :: "rp_frame \<Rightarrow> int \<Rightarrow> error + thresholds" where
  "rp_loc rp_df comid =
     (case filter (\<lambda>r. fst r = comid) rp_df of
        [] \<Rightarrow> Inl KeyError
      | [r] \<Rightarrow> Inr (snd r)
      | _ \<Rightarrow> Inl ValueError)"

section \<open>The three classification chains (lines 129-174)\<close>

text \<open>Lines 131-138: the colour of the reach.\<close>

definition color :: "thresholds \<Rightarrow> real \<Rightarrow> string" where
  "color th f_mean =
     (if f_mean > return_50 th then ''purple''
      else if f_mean > return_10 th then ''red''
      else if f_mean > return_2 th then ''yellow''
      else ''blue'')"

text \<open>Lines 143-154: the thickness of the reach, from the magnitude alone.\<close>

definition thickness :: "real \<Rightarrow> string" where
  "thickness f_mean =
     (if f_mean < 20 then ''1''
      else if 20 \<le> f_mean \<and> f_mean < 250 then ''2''
      else if 250 \<le> f_mean \<and> f_mean < 1500 then ''3''
      else if 1500 \<le> f_mean \<and> f_mean < 10000 then ''4''
      else if 10000 \<le> f_mean \<and> f_mean < 30000 then ''5''
      else ''6'')"

text \<open>Lines 159-172: the return period exceeded by the mean forecast.\<close>

definition ret_per :: "thresholds \<Rightarrow> real \<Rightarrow> string" where
  "ret_per th f_mean =
     (if f_mean > return_100 th then ''100''
      else if f_mean > return_50 th then ''50''
      else if f_mean > return_25 th then ''25''
      else if f_mean > return_10 th then ''10''
      else if f_mean > return_5 th then ''5''
      else if f_mean > return_2 th then ''2''
      else ''0'')"

text \<open>
  The loop of lines 126-174 over \<open>int_mean\<close>, with the three lists it appends to.
  Every iteration starts with \<open>rp_df.loc[comid, 'return_50']\<close> (line 131), so the
  row is looked up once per element, and an empty \<open>int_mean\<close> looks nothing up.
  Once that lookup has succeeded the later ones of the same iteration read the same
  row and cannot fail.
\<close>

fun classify_loop ::
  "rp_frame \<Rightarrow> int \<Rightarrow> real list \<Rightarrow> string list \<times> string list \<times> string list
     \<Rightarrow> error + (string list \<times> string list \<times> string list)" where
  "classify_loop rp_df comid [] acc = Inr acc"
| "classify_loop rp_df comid (f_mean # rest) (colors, thicknesses, ret_pers) =
     (case rp_loc rp_df comid of
        Inl e \<Rightarrow> Inl e
      | Inr th \<Rightarrow>
          classify_loop rp_df comid rest
            (colors @ [color th f_mean],
             thicknesses @ [thickness f_mean],
             ret_pers @ [ret_per th f_mean]))"

text \<open>
  The severity ordinals of the three descriptors, in the order the specification
  gives: blue < yellow < red < purple, "1" < ... < "6" and
  "0" < "2" < "5" < "10" < "25" < "50" < "100".
\<close>

definition color_severity :: "string \<Rightarrow> nat" where
  "color_severity c =
     (if c = ''blue'' then 0 else if c = ''yellow'' then 1
      else if c = ''red'' then 2 else 3)"

definition thickness_severity :: "string \<Rightarrow> nat" where
  "thickness_severity t =
     (if t = ''1'' then 1 else if t = ''2'' then 2 else if t = ''3'' then 3
      else if t = ''4'' then 4 else if t = ''5'' then 5 else 6)"

definition ret_per_severity :: "string \<Rightarrow> nat" where
  "ret_per_severity r =
     (if r = ''0'' then 0 else if r = ''2'' then 1 else if r = ''5'' then 2
      else if r = ''10'' then 3 else if r = ''25'' then 4
      else if r = ''50'' then 5 else 6)"

definition ordered_thresholds :: "thresholds \<Rightarrow> bool" where
  "ordered_thresholds th \<longleftrightarrow>
     return_2 th \<le> return_5 th \<and> return_5 th \<le> return_10 th \<and>
     return_10 th \<le> return_25 th \<and> return_25 th \<le> return_50 th \<and>
     return_50 th \<le> return_100 th"

section \<open>Timestamps and the 3-hour grid (lines 82-96)\<close>

text \<open>
  \<open>rawdates\<close> are seconds since the epoch. What turns them into dates are calls of
  libraries, which the model takes as parameters:
  \<^item> \<open>strftime\<close> is \<open>dt.datetime.utcfromtimestamp(date).strftime("%m/%d/%y %H:%M")\<close>
    of line 86. The string keeps month, day, hour, minute and the last two digits of
    the year: the seconds and the century are dropped. \<open>utcfromtimestamp\<close> raises
    outside the years 1 to 9999.
  \<^item> \<open>parse_date\<close> is pandas reading one such string back, as \<open>pd.date_range\<close>
    does with its \<open>start\<close> and \<open>end\<close> (lines 89-93); it chooses a century and
    raises on a string that is no date.
  \<^item> \<open>to_datetime\<close> is \<open>pd.to_datetime\<close> on the whole list (line 96).
  \<open>'s\<close> is the type of the formatted dates. A time that pandas has read is counted
  in minutes since the epoch.
\<close>

record 's date_library =
  strftime :: "int \<Rightarrow> error + 's"
  parse_date :: "'s \<Rightarrow> error + int"
  to_datetime :: "'s list \<Rightarrow> error + int list"

text \<open>Lines 84-86: the loop that appends the formatted dates.\<close>

fun format_dates :: "(int \<Rightarrow> error + 's) \<Rightarrow> int list \<Rightarrow> 's list \<Rightarrow> error + 's list" where
  "format_dates fmt [] dates = Inr dates"
| "format_dates fmt (date # rawdates) dates =
     (case fmt date of
        Inl e \<Rightarrow> Inl e
      | Inr d \<Rightarrow> format_dates fmt rawdates (dates @ [d]))"

text \<open>
  \<open>pd.date_range(start, end, freq='3H')\<close> of the pandas library: the points
  \<open>start\<close>, \<open>start + 3h\<close>, ... that do not lie after \<open>end\<close> (180 minutes apart).
\<close>

function date_range :: "int \<Rightarrow> int \<Rightarrow> int list" where
  "date_range start stop =
     (if start \<le> stop then start # date_range (start + 180) stop else [])"
  by pat_completeness auto
termination
  by (relation "measure (\<lambda>(start, stop). nat (stop - start + 1))") auto

declare date_range.simps [simp del]

text \<open>
  Lines 89-93: the grid runs from \<open>dates[0]\<close> to \<open>dates[-1]\<close>, as pandas reads
  the two strings; both subscripts raise IndexError on an empty list.
\<close>

definition interp_x :: "('s \<Rightarrow> error + int) \<Rightarrow> 's list \<Rightarrow> error + int list" where
  "interp_x parse dates =
     (case dates of
        [] \<Rightarrow> Inl IndexError
      | d # ds \<Rightarrow>
          (case parse d of
             Inl e \<Rightarrow> Inl e
           | Inr start \<Rightarrow>
               (case parse (last (d # ds)) of
                  Inl e \<Rightarrow> Inl e
                | Inr stop \<Rightarrow> Inr (date_range start stop))))"

section \<open>One reach: the body of the loop (lines 120-187)\<close>

text \<open>
  \<open>scipy.interpolate.pchip\<close> is a library, not code of this repository: the model
  takes it as a parameter. Construction may raise; the interpolator it returns is
  evaluated at every point of the grid.
\<close>

type_synonym interpolator = "int list \<Rightarrow> real list \<Rightarrow> error + (int \<Rightarrow> real)"

record row =
  row_comid :: int
  row_timestamp :: int
  row_max :: real
  row_mean :: real
  row_color :: string
  row_thickness :: string
  row_ret_per :: string

text \<open>
  \<open>Series.round(2)\<close>: the nearest multiple of 0.01, a tie going to the even one
  (over the reals: the representation error of floats is left out).
\<close>

definition round2 :: "real \<Rightarrow> real" where
  "round2 x =
     (let y = x * 100; f = \<lfloor>y\<rfloor>
      in real_of_int
           (if y - real_of_int f < 1 / 2 then f
            else if y - real_of_int f > 1 / 2 then f + 1
            else if even f then f else f + 1) / 100)"

text \<open>
  \<open>pd.DataFrame(data={...})\<close> of lines 177-187 from seven Series. In
  \<open>site_summary\<close> below all seven hold \<open>len(new_dates)\<close> entries, so no cell is
  missing and the frame has one row per position of \<open>new_dates\<close>.
\<close>

definition data_frame ::
  "int list \<Rightarrow> int list \<Rightarrow> real list \<Rightarrow> real list \<Rightarrow> string list \<Rightarrow> string list
     \<Rightarrow> string list \<Rightarrow> row list" where
  "data_frame c0 c1 c2 c3 c4 c5 c6 =
     map (\<lambda>i. \<lparr>row_comid = c0 ! i, row_timestamp = c1 ! i, row_max = c2 ! i,
                row_mean = c3 ! i, row_color = c4 ! i, row_thickness = c5 ! i,
                row_ret_per = c6 ! i\<rparr>)
         [0..<length c1]"

text \<open>
  Lines 120-187 for one reach. \<open>new_dates\<close> is \<open>interp_x\<close> formatted (lines
  94-95); the model keeps the points of the grid themselves, in minutes. The first column is
  \<open>[comid for comid in range(len(new_dates))]\<close> (line 179): the numbers
  0, 1, ..., not the reach's \<open>comid\<close>. The chains read the unrounded \<open>int_mean\<close>;
  the table holds the rounded values.
\<close>

definition site_summary ::
  "interpolator \<Rightarrow> rp_frame \<Rightarrow> int list \<Rightarrow> int list \<Rightarrow> int \<Rightarrow> real list \<Rightarrow> real list
     \<Rightarrow> error + row list" where
  "site_summary pchip rp_df dt_dates new_dates comid maxes means =
     (case pchip dt_dates maxes of
        Inl e \<Rightarrow> Inl e
      | Inr max_interpolator \<Rightarrow>
     (case pchip dt_dates means of
        Inl e \<Rightarrow> Inl e
      | Inr mean_interpolator \<Rightarrow>
     (let int_max = map max_interpolator new_dates;
          int_mean = map mean_interpolator new_dates
      in case classify_loop rp_df comid int_mean ([], [], []) of
           Inl e \<Rightarrow> Inl e
         | Inr (colors, thicknesses, ret_pers) \<Rightarrow>
             Inr (data_frame (map int [0..<length new_dates]) new_dates
                    (map round2 int_max) (map round2 int_mean)
                    colors thicknesses ret_pers))))"

section \<open>The loop over the reaches and the run (lines 117-194)\<close>

text \<open>
  The values the loop header of line 119 handles. A Python tuple is the list of its
  components.
\<close>

datatype pyobj = PInt int | PFloats "real list" | PTuple "pyobj list"

text \<open>\<open>zip(comids, new_dates, maxlist, meanlist)\<close>: it stops with its shortest argument.\<close>

definition zip_py :: "int list \<Rightarrow> int list \<Rightarrow> real list list \<Rightarrow> real list list \<Rightarrow> pyobj list" where
  "zip_py comids new_dates maxlist meanlist =
     map (\<lambda>(comid, date, maxes, means).
            PTuple [PInt comid, PInt date, PFloats maxes, PFloats means])
         (zip comids (zip new_dates (zip maxlist meanlist)))"

text \<open>\<open>enumerate(...)\<close>: the pairs \<open>(index, item)\<close>.\<close>

definition enumerate_py :: "pyobj list \<Rightarrow> pyobj list list" where
  "enumerate_py items = map (\<lambda>(index, item). [PInt (int index), item]) (List.enumerate 0 items)"

text \<open>
  Binding a tuple to the five targets \<open>index, comid, date, maxes, means\<close>: a tuple of
  any other length raises ValueError.
\<close>

fun unpack5 :: "pyobj list \<Rightarrow> error + (pyobj \<times> pyobj \<times> pyobj \<times> pyobj \<times> pyobj)" where
  "unpack5 [a, b, c, d, e] = Inr (a, b, c, d, e)"
| "unpack5 _ = Inl ValueError"

text \<open>
  One iteration of line 119: the targets are bound, then the body runs on
  \<open>comid\<close>, \<open>maxes\<close> and \<open>means\<close> (\<open>index\<close> and \<open>date\<close> are not read). A
  value of another shape than an integer and two lists of floats is taken to raise
  TypeError in the body.
\<close>

definition iteration ::
  "interpolator \<Rightarrow> rp_frame \<Rightarrow> int list \<Rightarrow> int list \<Rightarrow> pyobj list \<Rightarrow> error + row list" where
  "iteration pchip rp_df dt_dates new_dates item =
     (case unpack5 item of
        Inl e \<Rightarrow> Inl e
      | Inr (index, comid, date, maxes, means) \<Rightarrow>
          (case (comid, maxes, means) of
             (PInt c, PFloats mx, PFloats mn) \<Rightarrow>
               site_summary pchip rp_df dt_dates new_dates c mx mn
           | _ \<Rightarrow> Inl TypeError))"

text \<open>
  The \<open>for\<close> loop of lines 119-188: each iteration concatenates its frame onto
  \<open>summary_table_df\<close>; an exception leaves the loop at once.
\<close>

fun summary_loop ::
  "(pyobj list \<Rightarrow> error + row list) \<Rightarrow> pyobj list list \<Rightarrow> row list \<Rightarrow> error + row list" where
  "summary_loop step [] summary_table_df = Inr summary_table_df"
| "summary_loop step (item # items) summary_table_df =
     (case step item of
        Inl e \<Rightarrow> Inl e
      | Inr site \<Rightarrow> summary_loop step items (summary_table_df @ site))"

text \<open>
  The body of the \<open>try\<close> from line 84 on, given \<open>comids\<close> and \<open>rawdates\<close> as read
  from the first statistics file and \<open>maxlist\<close> and \<open>meanlist\<close> as lines 98-114
  have filled them: the dates are formatted (lines 84-86), the grid is built (lines
  89-95), the dates are read back as \<open>dt_dates\<close> (line 96), and the loop runs. Its
  result is the table handed to \<open>to_csv\<close> on line 190.
\<close>

definition try_body ::
  "'s date_library \<Rightarrow> interpolator \<Rightarrow> rp_frame \<Rightarrow> int list \<Rightarrow> int list
     \<Rightarrow> real list list \<Rightarrow> real list list \<Rightarrow> error + row list" where
  "try_body lib pchip rp_df comids rawdates maxlist meanlist =
     (case format_dates (strftime lib) rawdates [] of
        Inl e \<Rightarrow> Inl e
      | Inr dates \<Rightarrow>
     (case interp_x (parse_date lib) dates of
        Inl e \<Rightarrow> Inl e
      | Inr new_dates \<Rightarrow>
     (case to_datetime lib dates of
        Inl e \<Rightarrow> Inl e
      | Inr dt_dates \<Rightarrow>
          summary_loop (iteration pchip rp_df dt_dates new_dates)
            (enumerate_py (zip_py comids new_dates maxlist meanlist)) [])))"

text \<open>
  \<open>extract_summary_table\<close>: \<open>Some\<close> table when the table is written and
  \<open>'Stat Success'\<close> returned; \<open>None\<close> when an exception reached the handler of
  line 193, which logs it, writes nothing and lets the function return \<open>None\<close>.
\<close>

definition extract_summary_table ::
  "'s date_library \<Rightarrow> interpolator \<Rightarrow> rp_frame \<Rightarrow> int list \<Rightarrow> int list
     \<Rightarrow> real list list \<Rightarrow> real list list \<Rightarrow> row list option" where
  "extract_summary_table lib pchip rp_df comids rawdates maxlist meanlist =
     (case try_body lib pchip rp_df comids rawdates maxlist meanlist of
        Inl e \<Rightarrow> None
      | Inr summary_table_df \<Rightarrow> Some summary_table_df)"


section \<open>Values for the worked examples\<close>

text \<open>
  A stand-in for the library's interpolator in the worked examples. It raises
  ValueError where the library does (fewer than two points, arrays of different
  length, abscissae not strictly increasing) and otherwise holds the value of the
  latest sample that is not after the query point.
\<close>

definition hold_interpolator :: interpolator where
  "hold_interpolator x y =
     (if 2 \<le> length x \<and> length x = length y \<and> sorted_wrt (<) x
      then Inr (\<lambda>t. foldl (\<lambda>v (xi, yi). if xi \<le> t then yi else v) (hd y) (zip x y))
      else Inl ValueError)"

text \<open>
  A stand-in for the date libraries in the worked examples: a formatted date is
  represented by its whole minute since the epoch, the seconds dropped, and read
  back as that minute. This is what the libraries do to a timestamp whose year lies
  in the century that pandas chooses.
\<close>

definition minute_library :: "int date_library" where
  "minute_library =
     \<lparr>strftime = (\<lambda>date. Inr (date div 60)), parse_date = Inr, to_datetime = Inr\<rparr>"

definition example_thresholds :: thresholds where
  "example_thresholds =
     \<lparr>return_2 = 10, return_5 = 20, return_10 = 100, return_25 = 500,
      return_50 = 1000, return_100 = 5000\<rparr>"

section \<open>Properties of the classification chains\<close>

lemma classify_loop_found:
  assumes "rp_loc rp_df comid = Inr th"
  shows "classify_loop rp_df comid ms (cs, ts, rs) =
           Inr (cs @ map (color th) ms, ts @ map thickness ms, rs @ map (ret_per th) ms)"
  using assms by (induction ms arbitrary: cs ts rs) simp_all


lemma color_labels: "color th m \<in> {''purple'', ''red'', ''yellow'', ''blue''}"
  by (simp add: color_def)

lemma thickness_labels: "thickness m \<in> {''1'', ''2'', ''3'', ''4'', ''5'', ''6''}"
  by (simp add: thickness_def)

lemma ret_per_labels:
  "ret_per th m \<in> {''0'', ''2'', ''5'', ''10'', ''25'', ''50'', ''100''}"
  by (simp add: ret_per_def)

section \<open>The grid in closed form\<close>

lemma date_range_closed:
  "date_range start stop =
     map (\<lambda>k. start + 180 * int k) [0..<nat ((stop - start) div 180 + 1)]"
proof (induction start stop rule: date_range.induct)
  case (1 start stop)
  show ?case
  proof (cases "start \<le> stop")
    case False
    then have "stop - start < 0" by simp
    then have "(stop - start) div 180 < 0"
      by (simp add: neg_imp_zdiv_neg_iff)
    then have "nat ((stop - start) div 180 + 1) = 0" by simp
    with False show ?thesis by (simp add: date_range.simps [of start stop])
  next
    case True
    then have nn: "0 \<le> (stop - start) div 180" by simp
    have "stop - (start + 180) = (stop - start) + (-1) * 180" by simp
    then have shift: "(stop - (start + 180)) div 180 = (stop - start) div 180 - 1"
      by (metis (no_types) add.commute div_mult_self2 mult.commute
            uminus_add_conv_diff zero_neq_numeral mult_minus1 add.inverse_inverse
            div_mult_self1)
    have n: "nat ((stop - start) div 180 + 1) = Suc (nat ((stop - (start + 180)) div 180 + 1))"
      using nn shift by simp
    have "[0..<Suc n] = 0 # map Suc [0..<n]" for n
      by (simp add: upt_conv_Cons map_Suc_upt del: upt_Suc)
    with n have u: "[0..<nat ((stop - start) div 180 + 1)] =
                 0 # map Suc [0..<nat ((stop - (start + 180)) div 180 + 1)]"
      by simp
    have "date_range start stop = start # date_range (start + 180) stop"
      using True by (simp add: date_range.simps [of start stop])
    also have "date_range (start + 180) stop =
        map (\<lambda>k. start + 180 + 180 * int k) [0..<nat ((stop - (start + 180)) div 180 + 1)]"
      using "1.IH" [OF True] .
    finally show ?thesis
      unfolding u by (simp add: o_def algebra_simps)
  qed
qed

lemma grid_ex: "date_range 0 300 = [0, 180]"
  by (simp add: date_range.simps [of 0] date_range.simps [of 180] date_range.simps [of 360])

section \<open>The loop over the reaches\<close>


lemma summary_loop_Inl:
  "x \<in> set items \<Longrightarrow> step x = Inl e \<Longrightarrow> \<exists>e'. summary_loop step items df = Inl e'"
  by (induction items arbitrary: df) (auto split: sum.splits)


lemma iteration_enumerate:
  "item \<in> set (enumerate_py items) \<Longrightarrow>
     iteration pchip rp_df dt_dates new_dates item = Inl ValueError"
  by (auto simp: enumerate_py_def iteration_def)

lemma site_summary_Inr:
  assumes "site_summary pchip rp_df dt_dates new_dates comid maxes means = Inr rows"
  shows "\<exists>max_interpolator mean_interpolator colors thicknesses ret_pers.
           pchip dt_dates maxes = Inr max_interpolator \<and>
           pchip dt_dates means = Inr mean_interpolator \<and>
           classify_loop rp_df comid (map mean_interpolator new_dates) ([], [], [])
             = Inr (colors, thicknesses, ret_pers) \<and>
           rows = data_frame (map int [0..<length new_dates]) new_dates
                    (map round2 (map max_interpolator new_dates))
                    (map round2 (map mean_interpolator new_dates))
                    colors thicknesses ret_pers"
  using assms by (auto simp: site_summary_def Let_def split: sum.splits)


lemma site_summary_comid:
  "site_summary pchip rp_df dt_dates new_dates comid maxes means = Inr rows \<Longrightarrow>
     map row_comid rows = map int [0..<length new_dates]"
  by (auto dest!: site_summary_Inr simp: data_frame_def intro: nth_equalityI)


section \<open>Evaluation of the example values\<close>

lemma hold_ex:
  "hold_interpolator [0, 60, 300] [5, 50, 5000] =
     Inr (\<lambda>t. foldl (\<lambda>v (xi, yi). if xi \<le> t then yi else v) 5 [(0, 5), (60, 50), (300, 5000)])"
  by (simp add: hold_interpolator_def)

lemma round2_ex: "round2 5 = 5" "round2 50 = 50"
  by (simp_all add: round2_def Let_def)

lemma loc_ex: "rp_loc [(101, example_thresholds)] 101 = Inr example_thresholds"
  by (simp add: rp_loc_def)

lemma example_fields:
  "return_2 example_thresholds = 10" "return_5 example_thresholds = 20"
  "return_10 example_thresholds = 100" "return_25 example_thresholds = 500"
  "return_50 example_thresholds = 1000" "return_100 example_thresholds = 5000"
  by (simp_all add: example_thresholds_def)

section \<open>Further facts about the grid, the blocks and the examples\<close>

lemma grid_points_le:
  assumes "t \<in> set (date_range start stop)"
  shows "t \<le> stop"
proof -
  from assms obtain k where k: "k < nat ((stop - start) div 180 + 1)" and t: "t = start + 180 * int k"
    by (auto simp: date_range_closed)
  from k have "int k \<le> (stop - start) div 180" by linarith
  then have "180 * int k \<le> 180 * ((stop - start) div 180)" by simp
  also have "\<dots> \<le> stop - start" by (simp add: mult.commute)
  finally show ?thesis using t by simp
qed

lemma grid_last:
  assumes "start \<le> stop"
  shows "date_range start stop \<noteq> []" and "hd (date_range start stop) = start"
    and "last (date_range start stop) = start + 180 * ((stop - start) div 180)"
proof -
  let ?n = "nat ((stop - start) div 180 + 1)"
  from assms have nn: "0 \<le> (stop - start) div 180" by simp
  then have pos: "0 < ?n" by simp
  then show "date_range start stop \<noteq> []" by (simp add: date_range_closed)
  from assms show "hd (date_range start stop) = start"
    by (simp add: date_range.simps [of start stop])
  from pos have "last (date_range start stop) = start + 180 * int (?n - 1)"
    by (simp add: date_range_closed last_map last_upt)
  also from nn have "int (?n - 1) = (stop - start) div 180" by simp
  finally show "last (date_range start stop) = start + 180 * ((stop - start) div 180)" .
qed

lemma grid_mem_stop:
  "stop \<in> set (date_range start stop) \<longleftrightarrow> start \<le> stop \<and> 180 dvd (stop - start)"
proof
  assume "stop \<in> set (date_range start stop)"
  then obtain k where "k < nat ((stop - start) div 180 + 1)" "stop = start + 180 * int k"
    by (auto simp: date_range_closed)
  then show "start \<le> stop \<and> 180 dvd (stop - start)" by simp
next
  assume a: "start \<le> stop \<and> 180 dvd (stop - start)"
  then obtain q where q: "stop - start = 180 * q" by (auto elim: dvdE)
  with a have "0 \<le> q" by simp
  from q have "(stop - start) div 180 = q" by simp
  with \<open>0 \<le> q\<close> have "nat q < nat ((stop - start) div 180 + 1)" by simp
  moreover from q \<open>0 \<le> q\<close> have "stop = start + 180 * int (nat q)" by simp
  ultimately have "stop \<in> (\<lambda>k. start + 180 * int k) ` {0..<nat ((stop - start) div 180 + 1)}"
    by (intro image_eqI [where x = "nat q"]) simp_all
  then show "stop \<in> set (date_range start stop)"
    by (simp add: date_range_closed)
qed



lemma format_dates_Inr:
  "format_dates fmt rawdates acc = Inr dates \<Longrightarrow>
     \<exists>ds. dates = acc @ ds \<and> list_all2 (\<lambda>date d. fmt date = Inr d) rawdates ds"
proof (induction rawdates arbitrary: acc)
  case Nil
  then show ?case by simp
next
  case (Cons date rawdates)
  from Cons.prems obtain d where d: "fmt date = Inr d"
    and r: "format_dates fmt rawdates (acc @ [d]) = Inr dates"
    by (auto split: sum.splits)
  from Cons.IH [OF r] obtain ds where
    "dates = (acc @ [d]) @ ds" "list_all2 (\<lambda>date d. fmt date = Inr d) rawdates ds"
    by blast
  with d have "dates = acc @ (d # ds) \<and>
               list_all2 (\<lambda>date d. fmt date = Inr d) (date # rawdates) (d # ds)"
    by simp
  then show ?case by blast
qed

lemma format_dates_length:
  "format_dates fmt rawdates [] = Inr dates \<Longrightarrow> length dates = length rawdates"
  by (auto dest!: format_dates_Inr dest: list_all2_lengthD)



lemma loop_with_reach_fails:
  assumes "zip_py comids new_dates maxlist meanlist \<noteq> []"
  shows "\<exists>e. summary_loop (iteration pchip rp_df dt_dates new_dates)
               (enumerate_py (zip_py comids new_dates maxlist meanlist)) [] = Inl e"
proof -
  let ?items = "enumerate_py (zip_py comids new_dates maxlist meanlist)"
  let ?step = "iteration pchip rp_df dt_dates new_dates"
  have "length ?items = length (zip_py comids new_dates maxlist meanlist)"
    by (simp add: enumerate_py_def)
  with assms have "?items \<noteq> []" by (metis length_0_conv)
  then obtain item where m: "item \<in> set ?items" by (cases ?items) auto
  then have "?step item = Inl ValueError" by (rule iteration_enumerate)
  from summary_loop_Inl [where step = ?step and df = "[]", OF m this] show ?thesis .
qed

lemma run_with_reach_writes_nothing:
  assumes "format_dates (strftime lib) rawdates [] = Inr dates"
    and "interp_x (parse_date lib) dates = Inr new_dates"
    and "zip_py comids new_dates maxlist meanlist \<noteq> []"
  shows "extract_summary_table lib pchip rp_df comids rawdates maxlist meanlist = None"
proof (cases "to_datetime lib dates")
  case (Inl e)
  with assms(1,2) show ?thesis
    by (simp add: extract_summary_table_def try_body_def)
next
  case (Inr dt_dates)
  from loop_with_reach_fails [OF assms(3), of pchip rp_df dt_dates] obtain e where
    "summary_loop (iteration pchip rp_df dt_dates new_dates)
       (enumerate_py (zip_py comids new_dates maxlist meanlist)) [] = Inl e" by blast
  with assms(1,2) Inr show ?thesis
    by (simp add: extract_summary_table_def try_body_def)
qed

lemma zip_py_length:
  "length (zip_py comids new_dates maxlist meanlist) =
     min (length comids) (min (length new_dates) (min (length maxlist) (length meanlist)))"
  by (simp add: zip_py_def)

lemma site_ex:
  "site_summary hold_interpolator [(101, example_thresholds)] [0, 60, 300] [0, 180] 101
     [5, 50, 5000] [5, 50, 5000] =
   Inr [\<lparr>row_comid = 0, row_timestamp = 0, row_max = 5, row_mean = 5,
         row_color = ''blue'', row_thickness = ''1'', row_ret_per = ''0''\<rparr>,
      \<lparr>row_comid = 1, row_timestamp = 180, row_max = 50, row_mean = 50,
         row_color = ''yellow'', row_thickness = ''2'',
         row_ret_per = ''5''\<rparr>]"
  by (simp add: site_summary_def hold_ex loc_ex round2_ex example_fields
        color_def thickness_def ret_per_def data_frame_def upt_conv_Cons)

lemma format_ex:
  "format_dates (strftime minute_library) [0, 3600, 18000] [] = Inr [0, 60, 300]"
  by (simp add: minute_library_def)

lemma interp_x_ex: "interp_x (parse_date minute_library) [0, 60, 300] = Inr [0, 180]"
  by (simp add: interp_x_def minute_library_def grid_ex)

lemma to_datetime_ex: "to_datetime minute_library [0, 60, 300] = Inr [0, 60, 300]"
  by (simp add: minute_library_def)

lemma site_missing:
  "site_summary hold_interpolator [(102, example_thresholds)] [0, 60, 300] [0, 180] 101
     [5, 50, 5000] [5, 50, 5000] = Inl KeyError"
  by (simp add: site_summary_def hold_ex rp_loc_def)

lemma site_102:
  "site_summary hold_interpolator [(102, example_thresholds)] [0, 60, 300] [0, 180] 102
     [5, 50, 5000] [5, 50, 5000] =
   Inr [\<lparr>row_comid = 0, row_timestamp = 0, row_max = 5, row_mean = 5,
         row_color = ''blue'', row_thickness = ''1'', row_ret_per = ''0''\<rparr>,
      \<lparr>row_comid = 1, row_timestamp = 180, row_max = 50, row_mean = 50,
         row_color = ''yellow'', row_thickness = ''2'',
         row_ret_per = ''5''\<rparr>]"
proof -
  have "rp_loc [(102, example_thresholds)] 102 = Inr example_thresholds"
    by (simp add: rp_loc_def)
  then show ?thesis
    by (simp add: site_summary_def hold_ex round2_ex example_fields
        color_def thickness_def ret_per_def data_frame_def upt_conv_Cons)
qed

section \<open>The claims\<close>

subsection \<open>Failure of one reach\<close>

text \<open>
  C1, as the code has it. The only handler is the one of line 193, around the whole
  run; the loop of line 119 has none. So there is no containment per reach: when the
  body raises for a reach that the loop reaches (the interpolator rejects its
  samples, or its row of thresholds is missing), the run ends in the handler, no
  table is written and the function returns nothing; no other reach contributes a
  row.
\<close>

theorem reach_failure_aborts_run:
  assumes "format_dates (strftime lib) rawdates [] = Inr dates"
    and "interp_x (parse_date lib) dates = Inr new_dates"
    and "to_datetime lib dates = Inr dt_dates"
    and "i < length comids" and "i < length new_dates"
    and "i < length maxlist" and "i < length meanlist"
    and "site_summary pchip rp_df dt_dates new_dates
           (comids ! i) (maxlist ! i) (meanlist ! i) = Inl e"
  shows "extract_summary_table lib pchip rp_df comids rawdates maxlist meanlist = None"
proof -
  let ?items = "enumerate_py (zip_py comids new_dates maxlist meanlist)"
  let ?step = "iteration pchip rp_df dt_dates new_dates"
  from assms(4-7) have "i < length ?items"
    by (simp add: enumerate_py_def zip_py_length)
  then have m: "?items ! i \<in> set ?items" by (rule nth_mem)
  have "?step (?items ! i) = Inl ValueError" using m by (rule iteration_enumerate)
  from summary_loop_Inl [where step = ?step and df = "[]", OF m this] obtain e' where
    "summary_loop ?step ?items [] = Inl e'" by blast
  with assms(1-3) show ?thesis
    by (simp add: extract_summary_table_def try_body_def)
qed

text \<open>
  An instance: reach 101 has no row of thresholds, reach 102 is sound; the run writes
  nothing.
\<close>

theorem reach_failure_aborts_run_witness:
  "format_dates (strftime minute_library) [0, 3600, 18000] [] = Inr [0, 60, 300] \<and>
   interp_x (parse_date minute_library) [0, 60, 300] = Inr [0, 180] \<and>
   to_datetime minute_library [0, 60, 300] = Inr [0, 60, 300] \<and>
   site_summary hold_interpolator [(102, example_thresholds)] [0, 60, 300] [0, 180]
     ([101, 102] ! 0) ([[5, 50, 5000], [5, 50, 5000]] ! 0) ([[5, 50, 5000], [5, 50, 5000]] ! 0)
     = Inl KeyError \<and>
   extract_summary_table minute_library hold_interpolator [(102, example_thresholds)] [101, 102]
     [0, 3600, 18000] [[5, 50, 5000], [5, 50, 5000]] [[5, 50, 5000], [5, 50, 5000]] = None"
proof -
  have s: "site_summary hold_interpolator [(102, example_thresholds)] [0, 60, 300] [0, 180]
     ([101, 102] ! 0) ([[5, 50, 5000], [5, 50, 5000]] ! 0) ([[5, 50, 5000], [5, 50, 5000]] ! 0)
     = Inl KeyError"
    by (simp add: site_missing)
  have "extract_summary_table minute_library hold_interpolator [(102, example_thresholds)]
     [101, 102] [0, 3600, 18000] [[5, 50, 5000], [5, 50, 5000]] [[5, 50, 5000], [5, 50, 5000]]
     = None"
    by (rule reach_failure_aborts_run [OF format_ex interp_x_ex to_datetime_ex _ _ _ _ s])
      simp_all
  with format_ex interp_x_ex to_datetime_ex s show ?thesis by blast
qed

text \<open>
  C1 as stated fails at the same run: the body raises KeyError for reach 101, reach
  102 alone would give its two rows, and the output holds neither.
\<close>

theorem containment_counterexample:
  "site_summary hold_interpolator [(102, example_thresholds)] [0, 60, 300] [0, 180] 101
     [5, 50, 5000] [5, 50, 5000] = Inl KeyError \<and>
   (\<exists>rows. site_summary hold_interpolator [(102, example_thresholds)] [0, 60, 300] [0, 180] 102
             [5, 50, 5000] [5, 50, 5000] = Inr rows \<and> length rows = 2) \<and>
   extract_summary_table minute_library hold_interpolator [(102, example_thresholds)] [101, 102]
     [0, 3600, 18000] [[5, 50, 5000], [5, 50, 5000]] [[5, 50, 5000], [5, 50, 5000]] = None"
  by (simp add: site_missing site_102 extract_summary_table_def try_body_def minute_library_def
        interp_x_def grid_ex zip_py_def enumerate_py_def iteration_def)

subsection \<open>The first field of a row\<close>

text \<open>
  C2 is not what line 179 does: the first column of the frame of a reach is
  \<open>range(len(new_dates))\<close>, whatever the reach (lemma \<open>site_summary_comid\<close>).
  For reach 101 and a grid of two points the first fields are 0 and 1.
\<close>

theorem first_field_is_position:
  "\<exists>rows. site_summary hold_interpolator [(101, example_thresholds)] [0, 60, 300] [0, 180] 101
             [5, 50, 5000] [5, 50, 5000] = Inr rows \<and>
          map row_comid rows = [0, 1]"
  by (simp add: site_ex)

subsection \<open>The number and order of the rows\<close>

text \<open>
  C3 at a sound run of one reach and a grid of two points: \<open>enumerate\<close> yields
  pairs, the header of line 119 binds five names, the ValueError reaches the handler
  and nothing is written, whatever the interpolator. The same holds of every run
  whose loop has a reach to process (lemma \<open>run_with_reach_writes_nothing\<close>).
\<close>

theorem valid_run_writes_nothing:
  "extract_summary_table minute_library pchip [(101, example_thresholds)] [101]
     [0, 3600, 18000] [[5, 50, 5000]] [[5, 50, 5000]] = None"
  by (simp add: extract_summary_table_def try_body_def minute_library_def interp_x_def grid_ex
        zip_py_def enumerate_py_def iteration_def)

subsection \<open>The colour\<close>

text \<open>
  C4, as the code has it. The colour is purple exactly when the mean exceeds
  \<open>return_50\<close>, else red exactly when it exceeds \<open>return_10\<close>, else yellow
  exactly when it exceeds \<open>return_2\<close>, else blue, every comparison strict. A mean
  equal to \<open>return_50\<close> is never purple; it is red exactly when \<open>return_10\<close> lies
  below \<open>return_50\<close>, and falls through to yellow or blue when the two are equal.
\<close>

theorem color_chain:
  "(color th mean = ''purple'' \<longleftrightarrow> mean > return_50 th) \<and>
   (color th mean = ''red'' \<longleftrightarrow> \<not> mean > return_50 th \<and> mean > return_10 th) \<and>
   (color th mean = ''yellow'' \<longleftrightarrow>
      \<not> mean > return_50 th \<and> \<not> mean > return_10 th \<and> mean > return_2 th) \<and>
   (color th mean = ''blue'' \<longleftrightarrow>
      \<not> mean > return_50 th \<and> \<not> mean > return_10 th \<and> \<not> mean > return_2 th) \<and>
   color th (return_50 th) \<noteq> ''purple'' \<and>
   (color th (return_50 th) = ''red'' \<longleftrightarrow> return_10 th < return_50 th)"
  by (simp add: color_def)

text \<open>
  C4 as stated says that a mean equal to \<open>return_50\<close> is red. A reach whose six
  thresholds are all 0 is ordered, and the mean 0 is not red there (it is blue).
\<close>

theorem color_tie_counterexample:
  "ordered_thresholds
     \<lparr>return_2 = 0, return_5 = 0, return_10 = 0, return_25 = 0, return_50 = 0, return_100 = 0\<rparr> \<and>
   color \<lparr>return_2 = 0, return_5 = 0, return_10 = 0, return_25 = 0, return_50 = 0, return_100 = 0\<rparr>
     (return_50
        \<lparr>return_2 = 0, return_5 = 0, return_10 = 0, return_25 = 0, return_50 = 0, return_100 = 0\<rparr>)
     \<noteq> ''red''"
  by (simp add: color_def ordered_thresholds_def)

subsection \<open>The return period\<close>

text \<open>
  C5. The label is found by testing the thresholds from the highest down with a
  strict comparison, the first that the mean exceeds giving the label: "100" for
  \<open>return_100\<close>, then "50", "25", "10", "5", "2", and "0" when the mean exceeds
  none.
\<close>

theorem ret_per_chain:
  "(ret_per th m = ''100'' \<longleftrightarrow> m > return_100 th) \<and>
   (ret_per th m = ''50'' \<longleftrightarrow> \<not> m > return_100 th \<and> m > return_50 th) \<and>
   (ret_per th m = ''25'' \<longleftrightarrow> \<not> m > return_100 th \<and> \<not> m > return_50 th \<and> m > return_25 th) \<and>
   (ret_per th m = ''10'' \<longleftrightarrow>
      \<not> m > return_100 th \<and> \<not> m > return_50 th \<and> \<not> m > return_25 th \<and> m > return_10 th) \<and>
   (ret_per th m = ''5'' \<longleftrightarrow>
      \<not> m > return_100 th \<and> \<not> m > return_50 th \<and> \<not> m > return_25 th \<and> \<not> m > return_10 th \<and>
      m > return_5 th) \<and>
   (ret_per th m = ''2'' \<longleftrightarrow>
      \<not> m > return_100 th \<and> \<not> m > return_50 th \<and> \<not> m > return_25 th \<and> \<not> m > return_10 th \<and>
      \<not> m > return_5 th \<and> m > return_2 th) \<and>
   (ret_per th m = ''0'' \<longleftrightarrow>
      \<not> m > return_100 th \<and> \<not> m > return_50 th \<and> \<not> m > return_25 th \<and> \<not> m > return_10 th \<and>
      \<not> m > return_5 th \<and> \<not> m > return_2 th)"
  by (simp add: ret_per_def)

subsection \<open>The thickness\<close>

text \<open>
  C6. The thickness is "1" exactly below 20, "2" from 20 up to but not including
  250, "3" from 250 to 1500, "4" from 1500 to 10000, "5" from 10000 to 30000 and "6"
  from 30000 on: every band holds its lower bound and not its upper one, and a mean
  of exactly 20 is "2".
\<close>

theorem thickness_bands:
  "(thickness m = ''1'' \<longleftrightarrow> m < 20) \<and>
   (thickness m = ''2'' \<longleftrightarrow> 20 \<le> m \<and> m < 250) \<and>
   (thickness m = ''3'' \<longleftrightarrow> 250 \<le> m \<and> m < 1500) \<and>
   (thickness m = ''4'' \<longleftrightarrow> 1500 \<le> m \<and> m < 10000) \<and>
   (thickness m = ''5'' \<longleftrightarrow> 10000 \<le> m \<and> m < 30000) \<and>
   (thickness m = ''6'' \<longleftrightarrow> m \<ge> 30000) \<and>
   thickness 20 = ''2''"
  by (auto simp add: thickness_def)

subsection \<open>Monotonicity of the severity\<close>

text \<open>
  C7. For thresholds in increasing order and two means \<open>m1 \<le> m2\<close>, the severity
  of the colour, of the thickness and of the return period of \<open>m1\<close> is at most that
  of \<open>m2\<close>. (The proof does not need the order of the thresholds.)
\<close>

theorem severity_monotone:
  assumes "ordered_thresholds th" and "m1 \<le> m2"
  shows "color_severity (color th m1) \<le> color_severity (color th m2) \<and>
         thickness_severity (thickness m1) \<le> thickness_severity (thickness m2) \<and>
         ret_per_severity (ret_per th m1) \<le> ret_per_severity (ret_per th m2)"
proof (intro conjI)
  show "color_severity (color th m1) \<le> color_severity (color th m2)"
    using assms(2) by (simp add: color_def color_severity_def)
  show "thickness_severity (thickness m1) \<le> thickness_severity (thickness m2)"
    using assms(2) by (simp add: thickness_def thickness_severity_def)
  show "ret_per_severity (ret_per th m1) \<le> ret_per_severity (ret_per th m2)"
    using assms(2) by (simp add: ret_per_def ret_per_severity_def)
qed

text \<open>An instance: the example thresholds with the means 50 and 2000.\<close>

theorem severity_monotone_witness:
  "ordered_thresholds example_thresholds \<and> (50::real) \<le> 2000 \<and>
   color_severity (color example_thresholds 50) = 1 \<and>
   color_severity (color example_thresholds 2000) = 3 \<and>
   color_severity (color example_thresholds 50) \<le> color_severity (color example_thresholds 2000) \<and>
   thickness_severity (thickness 50) \<le> thickness_severity (thickness 2000) \<and>
   ret_per_severity (ret_per example_thresholds 50)
     \<le> ret_per_severity (ret_per example_thresholds 2000)"
proof -
  have o: "ordered_thresholds example_thresholds"
    by (simp add: ordered_thresholds_def example_fields)
  have le: "(50::real) \<le> 2000" by simp
  have "color_severity (color example_thresholds 50) = 1"
       "color_severity (color example_thresholds 2000) = 3"
    by (simp_all add: color_def color_severity_def example_fields)
  with o le severity_monotone [OF o le] show ?thesis by simp
qed

subsection \<open>The grid\<close>

text \<open>
  C8, as the code has it. The grid is not built from the timestamps themselves but
  from the dates that line 86 formats to the minute and that pandas reads back. When
  the first and the last timestamp are read back as their whole minutes \<open>start\<close>
  and \<open>stop\<close> (the seconds dropped), the grid is \<open>start\<close>, \<open>start + 3h\<close>,
  \<open>start + 6h\<close>, ...: no point lies after \<open>stop\<close>, and when \<open>start \<le> stop\<close> the
  grid begins with \<open>start\<close> and its last point is less than three hours before
  \<open>stop\<close>; \<open>stop\<close> itself is a point of the grid exactly when \<open>stop - start\<close> is
  a multiple of three hours. A timestamp on a whole minute is its own minute, and for
  such timestamps \<open>t0\<close>, \<open>t0 + 1h\<close>, \<open>t0 + 5h\<close> the grid is \<open>t0\<close>, \<open>t0 + 3h\<close>.
  Timestamps are in seconds, the points of the grid in minutes.
\<close>

theorem grid_construction:
  fixes lib :: "'s date_library" and d0 :: int and rest :: "int list"
  defines "start \<equiv> d0 div 60"
  defines "stop \<equiv> last (d0 # rest) div 60"
  defines "grid \<equiv> map (\<lambda>k. start + 180 * int k) [0..<nat ((stop - start) div 180 + 1)]"
  assumes "format_dates (strftime lib) (d0 # rest) [] = Inr dates"
    and "parse_date lib (hd dates) = Inr start"
    and "parse_date lib (last dates) = Inr stop"
  shows "interp_x (parse_date lib) dates = Inr grid \<and>
         (\<forall>t \<in> set grid. t \<le> stop) \<and>
         (start \<le> stop \<longrightarrow>
            hd grid = start \<and> last grid \<le> stop \<and> stop < last grid + 180) \<and>
         (stop \<in> set grid \<longleftrightarrow> start \<le> stop \<and> 180 dvd (stop - start)) \<and>
         (60 dvd d0 \<longrightarrow> 60 * start = d0) \<and>
         (60 dvd last (d0 # rest) \<longrightarrow> 60 * stop = last (d0 # rest)) \<and>
         format_dates (strftime minute_library) [60 * m, 60 * m + 3600, 60 * m + 18000] []
           = Inr [m, m + 60, m + 300] \<and>
         interp_x (parse_date minute_library) [m, m + 60, m + 300] = Inr [m, m + 180]"
proof -
  have g: "grid = date_range start stop"
    by (simp only: grid_def date_range_closed)
  from format_dates_length [OF assms(4)] obtain d ds where dates: "dates = d # ds"
    by (cases dates) auto
  from assms(5,6) have 1: "interp_x (parse_date lib) dates = Inr grid"
    unfolding dates g by (simp add: interp_x_def)
  have 2: "\<forall>t \<in> set grid. t \<le> stop"
    unfolding g by (blast intro: grid_points_le)
  have 3: "hd grid = start \<and> last grid \<le> stop \<and> stop < last grid + 180" if le: "start \<le> stop"
  proof -
    have l: "last grid = start + 180 * ((stop - start) div 180)"
      unfolding g by (rule grid_last(3) [OF le])
    have "180 * ((stop - start) div 180) \<le> stop - start" by (simp add: mult.commute)
    with l have a: "last grid \<le> stop" by simp
    have "(stop - start) mod 180 < 180" by simp
    moreover have "stop - start = 180 * ((stop - start) div 180) + (stop - start) mod 180"
      by simp
    ultimately have "stop - start < 180 * ((stop - start) div 180) + 180"
      by linarith
    with l have b: "stop < last grid + 180" by simp
    have "hd grid = start" unfolding g by (rule grid_last(2) [OF le])
    with a b show ?thesis by blast
  qed
  have 4: "stop \<in> set grid \<longleftrightarrow> start \<le> stop \<and> 180 dvd (stop - start)"
    unfolding g by (rule grid_mem_stop)
  have 5: "60 * start = d0" if "60 dvd d0"
    using that unfolding start_def by simp
  have 6: "60 * stop = last (d0 # rest)" if "60 dvd last (d0 # rest)"
    using that unfolding stop_def by simp
  have 7: "format_dates (strftime minute_library) [60 * m, 60 * m + 3600, 60 * m + 18000] []
           = Inr [m, m + 60, m + 300]"
    by (simp add: minute_library_def)
  have "date_range m (m + 300) = [m, m + 180]"
    by (simp add: date_range_closed upt_conv_Cons)
  then have 8: "interp_x (parse_date minute_library) [m, m + 60, m + 300] = Inr [m, m + 180]"
    by (simp add: interp_x_def minute_library_def)
  from 1 2 3 4 5 6 7 8 show ?thesis by blast
qed

text \<open>
  An instance: the timestamps 59 s, 3600 s and 18030 s are formatted to the minutes 0,
  60 and 300; the grid is 0, 180 and does not hold the last minute.
\<close>

theorem grid_construction_witness:
  "format_dates (strftime minute_library) [59, 3600, 18030] [] = Inr [0, 60, 300] \<and>
   parse_date minute_library (hd [0, 60, 300]) = Inr (59 div 60) \<and>
   parse_date minute_library (last [0, 60, 300]) = Inr (last [59, 3600, 18030] div 60) \<and>
   interp_x (parse_date minute_library) [0, 60, 300] = Inr [0, 180] \<and>
   (300::int) \<notin> set [0, 180]"
proof -
  have f: "format_dates (strftime minute_library) (59 # [3600, 18030]) [] = Inr [0, 60, 300]"
    by (simp add: minute_library_def)
  have a: "parse_date minute_library (hd [0, 60, 300]) = Inr (59 div 60)"
    by (simp add: minute_library_def)
  have b: "parse_date minute_library (last [0, 60, 300]) = Inr (last (59 # [3600, 18030]) div 60)"
    by (simp add: minute_library_def)
  from grid_construction [OF f a b, of 0]
  have "interp_x (parse_date minute_library) [0, 60, 300] = Inr [0, 180]"
    by (simp add: upt_conv_Cons)
  with f a b show ?thesis by simp
qed

text \<open>
  C8 as stated fails where a timestamp does not lie on a whole minute. For the
  timestamps 59 s and 10800 s (3 h) the dates are the minutes 0 and 180 and the grid
  is 0, 180: in seconds it starts at 0, not at 59, and it holds the last timestamp
  although the two are 10741 s apart, which is no multiple of 10800 s.
\<close>

theorem grid_seconds_counterexample:
  "format_dates (strftime minute_library) [59, 10800] [] = Inr [0, 180] \<and>
   interp_x (parse_date minute_library) [0, 180] = Inr [0, 180] \<and>
   (60::int) * hd [0, 180] \<noteq> 59 \<and>
   (60::int) * last [0, 180] = 10800 \<and>
   \<not> (10800::int) dvd (10800 - 59)"
proof -
  have "date_range 0 180 = [0, 180]"
    by (simp add: date_range_closed upt_conv_Cons)
  then show ?thesis
    by (simp add: minute_library_def interp_x_def)
qed

subsection \<open>Whole blocks or nothing\<close>



subsection \<open>Totality of the classification\<close>

text \<open>
  C10. For a reach that has its row of thresholds and for interpolated means of any
  value, negative and zero included, the loop of lines 126-174 raises nothing and
  appends one colour, one thickness and one return period per mean, each among the
  labels of its chain: the three lists end as long as \<open>int_mean\<close>.
\<close>

theorem classification_total:
  assumes "rp_loc rp_df comid = Inr th"
  shows "\<exists>colors thicknesses ret_pers.
           classify_loop rp_df comid int_mean ([], [], []) = Inr (colors, thicknesses, ret_pers) \<and>
           colors = map (color th) int_mean \<and>
           thicknesses = map thickness int_mean \<and>
           ret_pers = map (ret_per th) int_mean \<and>
           length colors = length int_mean \<and>
           length thicknesses = length int_mean \<and>
           length ret_pers = length int_mean \<and>
           set colors \<subseteq> {''purple'', ''red'', ''yellow'', ''blue''} \<and>
           set thicknesses \<subseteq> {''1'', ''2'', ''3'', ''4'', ''5'', ''6''} \<and>
           set ret_pers \<subseteq> {''0'', ''2'', ''5'', ''10'', ''25'', ''50'', ''100''}"
proof -
  have "set (map (color th) int_mean) \<subseteq> {''purple'', ''red'', ''yellow'', ''blue''}"
    using color_labels by auto
  moreover have "set (map thickness int_mean) \<subseteq> {''1'', ''2'', ''3'', ''4'', ''5'', ''6''}"
    using thickness_labels by auto
  moreover have "set (map (ret_per th) int_mean)
                   \<subseteq> {''0'', ''2'', ''5'', ''10'', ''25'', ''50'', ''100''}"
    using ret_per_labels by auto
  ultimately show ?thesis
    using classify_loop_found [OF assms, of int_mean "[]" "[]" "[]"] by simp
qed

text \<open>An instance with a negative mean, zero, a boundary value and large values.\<close>

theorem classification_total_witness:
  "rp_loc [(101, example_thresholds)] 101 = Inr example_thresholds \<and>
   classify_loop [(101, example_thresholds)] 101 [-3, 0, 20, 1000, 40000] ([], [], []) =
     Inr ([''blue'', ''blue'', ''yellow'', ''red'', ''purple''],
          [''1'', ''1'', ''2'', ''3'', ''6''],
          [''0'', ''0'', ''2'', ''25'', ''100''])"
proof -
  from classification_total [OF loc_ex, of "[-3, 0, 20, 1000, 40000]"]
  show ?thesis
    by (simp add: loc_ex color_def thickness_def ret_per_def example_fields)
qed

end
